theory Spec2Isabelle
  imports Complex_Main "HOL-Library.Char_ord" "HOL-Library.List_Lexorder"
begin

section \<open>Tables of match records\<close>

text \<open>
  The program keeps its data in pandas frames. Of every row only the four cells the
  program reads are modelled; a cell that is NaN or None, or whose column does not occur
  in the row's source table, is \<open>None\<close>. The names are strings. A surface or a level
  is a string or a whole number: \<open>pd.read_csv\<close> reads a column of whole numbers, such
  as the level column of the futures files, as integers.

  A table carries its header, since selecting a column that no table has raises
  KeyError, and the names of its columns of dtype object, since \<open>pd.get_dummies\<close>
  expands those and no others; the other columns are numeric.
\<close>

datatype cell = Str string | Num int

record row =
  winner_name :: "string option"
  loser_name :: "string option"
  surface :: "cell option"
  tourney_level :: "cell option"

record table =
  columns :: "string list"
  object_columns :: "string list"
  rows :: "row list"

section \<open>Files, directories and the world outside the program\<close>

text \<open>
  What \<open>pd.read_csv\<close> makes of a file: it raises, or it returns a table. A directory is
  the list of its entries, each with what \<open>pd.read_csv\<close> makes of it. File names are
  strings of 8-bit characters.
\<close>

datatype csv = Unparsable string | Parsed table

type_synonym dir = "(string \<times> csv) list"

text \<open>
  A downloaded file is a zip archive or it is not. Of the primary archive only the
  top-level folder \<open>tennis_atp-master\<close> matters (it is there with its entries, or it is
  not); of the secondary archive only the member \<open>atp_matches.csv\<close>.
\<close>

datatype 'a archive = NotAZip | Zip 'a

text \<open>
  The part of the file system the program touches: the primary directory \<open>atp_data\<close>, the
  cached archive \<open>cached_atp_dataset.zip\<close>, the staging directory \<open>_temp_tennis_data\<close>
  (absent, or present with or without the folder \<open>tennis_atp-master\<close>), and under
  \<open>kaggle_data\<close> the cached secondary archive and the file \<open>atp_matches.csv\<close>.
  A path that exists is taken to be of the kind the program expects.
\<close>

record world =
  atp_data :: "dir option"
  zip_cache :: "dir option archive option"
  temp_dir :: "dir option option"
  kaggle_zip :: "csv option archive option"
  kaggle_file :: "csv option"

text \<open>
  Everything the program does not decide itself: what each call into the network, the
  file system or the Kaggle client does on this run. \<open>Some e\<close> and \<open>Inl e\<close> mean that
  the call raises an exception with message \<open>e\<close>. A call that raises after it has
  begun its work leaves something behind, which comes with the message: the write of
  the cache file leaves no file or a truncated one, an extraction leaves its target
  with whatever it has written, a removal of \<open>atp_data\<close> leaves whatever it had not
  yet removed. The two extraction oracles answer for each attempt, counted from 0.

  \<open>secrets_lookup\<close> is lines 45--47, which are outside every \<open>try\<close>: the test
  \<open>"KAGGLE_USERNAME" in st.secrets\<close> raises when there is no secrets file, and so
  does the assignment of a secret that is not a string to \<open>os.environ\<close>. What the
  credentials do to the Kaggle client is part of \<open>kaggle_cli\<close>.
\<close>

record env =
  secrets_lookup :: "string option"
  http_get :: "string + dir option archive"
  write_zip :: "(string \<times> dir option archive option) option"
  rm_temp_before :: "string option"
  extract_primary :: "nat \<Rightarrow> (string \<times> dir option option) option"
  rm_atp_data :: "(string \<times> dir option) option"
  rename_dir :: "string option"
  rm_temp_after :: "string option"
  makedirs :: "string option"
  kaggle_cli :: "string + csv option archive option"
  extract_kaggle :: "nat \<Rightarrow> (string \<times> csv option) option"

text \<open>The messages of the program, and what an observer of one run sees, in order.\<close>

datatype message =
    AttemptFailed nat string
  | CleanTempFailed string
  | ExtractExhausted
  | MoveFailed string
  | FolderNotFound
  | TempDeleteFailed string
  | DownloadFailed string
  | KaggleDownloading
  | KaggleExtractExhausted
  | KaggleFailed string
  | Skipping string string
  | NoValidData
  | Loaded nat

datatype event =
    HttpGet
  | ExtractAll
  | Sleep rat
  | KaggleCli
  | Info message
  | Warning message
  | Error message
  | Success message

text \<open>
  \<open>st.stop()\<close> ends the run: the exception it raises is not an \<open>Exception\<close>, so the
  handler of line 90 does not catch it.
\<close>

datatype flow = Continue | Stopped

section \<open>Acquisition (tennis\_match\_predictor-v12.py, lines 34--113)\<close>

text \<open>
  Lines 34--42:
  \<^verbatim>\<open>def try_extract_all(zipfile_obj, extract_path, max_retries=3):
    for attempt in range(max_retries):
        try:
            zipfile_obj.extractall(extract_path)
            return True
        except Exception as e:
            st.warning(f"Attempt {attempt+1} to extract zip failed: {e}")
            time.sleep(1.5 * (attempt + 1))
    return False\<close>
  The loop, with the number of attempts left, the number of the attempt and the state
  of the target directory. \<open>extractall\<close> is the call of line 37: on the attempt of that
  number and the target in that state it raises, leaving the target in some state, or
  it returns, leaving it in another. The products 1.5, 3.0 and 4.5 are exact in binary
  floating point, so a sleep is a rational number of seconds.
\<close>

fun extract_loop ::
  "(nat \<Rightarrow> 's \<Rightarrow> string \<times> 's + 's) \<Rightarrow> nat \<Rightarrow> nat \<Rightarrow> 's \<Rightarrow> bool \<times> 's \<times> event list" where
  "extract_loop extractall 0 attempt target = (False, target, [])"
| "extract_loop extractall (Suc remaining) attempt target =
     (case extractall attempt target of
        Inr target' \<Rightarrow> (True, target', [ExtractAll])
      | Inl (e, target') \<Rightarrow>
          (let (ok, target'', evs) = extract_loop extractall remaining (Suc attempt) target'
           in (ok, target'', ExtractAll # Warning (AttemptFailed (attempt + 1) e)
                               # Sleep (3 / 2 * of_nat (attempt + 1)) # evs)))"

definition try_extract_all ::
  "(nat \<Rightarrow> 's \<Rightarrow> string \<times> 's + 's) \<Rightarrow> nat \<Rightarrow> 's \<Rightarrow> bool \<times> 's \<times> event list" where
  "try_extract_all extractall max_retries target = extract_loop extractall max_retries 0 target"

text \<open>
  Lines 56--59: the archive is fetched only when the cached zip file is absent. The
  result is the exception raised, if any, the world and the events.
  \<^verbatim>\<open>if not os.path.exists(zipped_data_path):
    r = requests.get(DATA_URL)
    with open(zipped_data_path, "wb") as f:
        f.write(r.content)\<close>
\<close>

definition fetch_zip :: "env \<Rightarrow> world \<Rightarrow> string option \<times> world \<times> event list" where
  "fetch_zip env w =
     (if zip_cache w = None then
        (case http_get env of
           Inl e \<Rightarrow> (Some e, w, [HttpGet])
         | Inr content \<Rightarrow>
             (case write_zip env of
                Some (e, left) \<Rightarrow> (Some e, w\<lparr>zip_cache := left\<rparr>, [HttpGet])
              | None \<Rightarrow> (None, w\<lparr>zip_cache := Some content\<rparr>, [HttpGet])))
      else (None, w, []))"

text \<open>Lines 64--68: an old staging directory is removed; a failure is only a warning.\<close>

definition clean_temp :: "env \<Rightarrow> world \<Rightarrow> world \<times> event list" where
  "clean_temp env w =
     (if temp_dir w \<noteq> None then
        (case rm_temp_before env of
           Some e \<Rightarrow> (w, [Warning (CleanTempFailed e)])
         | None \<Rightarrow> (w\<lparr>temp_dir := None\<rparr>, []))
      else (w, []))"

text \<open>
  A successful \<open>extractall\<close> writes the archive's entries into the staging directory,
  over what an incomplete cleaning has left there.
\<close>

definition overlay :: "dir \<Rightarrow> dir \<Rightarrow> dir" where
  "overlay new old = new @ filter (\<lambda>(n, _). n \<notin> fst ` set new) old"

definition extracted :: "dir option \<Rightarrow> dir option option \<Rightarrow> dir option option" where
  "extracted a old =
     (case a of
        None \<Rightarrow> (case old of None \<Rightarrow> Some None | Some folder \<Rightarrow> Some folder)
      | Some d \<Rightarrow>
          (case old of
             Some (Some od) \<Rightarrow> Some (Some (overlay d od))
           | _ \<Rightarrow> Some (Some d)))"

text \<open>\<open>z.extractall(temp_dir)\<close> on one attempt, for the archive with that folder.\<close>

definition extractall_primary ::
  "env \<Rightarrow> dir option \<Rightarrow> nat \<Rightarrow> dir option option \<Rightarrow>
     string \<times> dir option option + dir option option" where
  "extractall_primary env a attempt target =
     (case extract_primary env attempt of
        Some (e, left) \<Rightarrow> Inl (e, left)
      | None \<Rightarrow> Inr (extracted a target))"

text \<open>
  Lines 76--81:
  \<^verbatim>\<open>try:
    if os.path.exists("atp_data"):
        shutil.rmtree("atp_data", onerror=remove_readonly)
    os.rename(extracted_dir, "atp_data")
except Exception as e:
    st.error(f"Failed to move ATP data directory: {e}")\<close>
  No \<open>st.stop()\<close> follows the error.
\<close>

definition move_into_place :: "env \<Rightarrow> dir \<Rightarrow> world \<Rightarrow> world \<times> event list" where
  "move_into_place env d w =
     (case (if atp_data w \<noteq> None then rm_atp_data env else None) of
        Some (e, residue) \<Rightarrow> (w\<lparr>atp_data := residue\<rparr>, [Error (MoveFailed e)])
      | None \<Rightarrow>
          (case rename_dir env of
             Some e \<Rightarrow> (w\<lparr>atp_data := None\<rparr>, [Error (MoveFailed e)])
           | None \<Rightarrow> (w\<lparr>atp_data := Some d, temp_dir := Some None\<rparr>, [])))"

text \<open>Lines 86--89: the staging directory is removed; a failure is only a warning.\<close>

definition remove_temp :: "env \<Rightarrow> world \<Rightarrow> world \<times> event list" where
  "remove_temp env w =
     (case rm_temp_after env of
        Some e \<Rightarrow> (w, [Warning (TempDeleteFailed e)])
      | None \<Rightarrow> (w\<lparr>temp_dir := None\<rparr>, []))"

text \<open>Lines 62--89, inside \<open>with zipfile.ZipFile(...) as z\<close>, for an opened archive.\<close>

definition stage :: "env \<Rightarrow> dir option \<Rightarrow> world \<Rightarrow> flow \<times> world \<times> event list" where
  "stage env a w =
     (let (w1, ev1) = clean_temp env w;
          (ok, target, ev2) = try_extract_all (extractall_primary env a) 3 (temp_dir w1);
          w2 = w1\<lparr>temp_dir := target\<rparr>
      in if \<not> ok then (Stopped, w2, ev1 @ ev2 @ [Error ExtractExhausted])
         else
           case temp_dir w2 of
             Some (Some d) \<Rightarrow>
               (let (w3, ev3) = move_into_place env d w2;
                    (w4, ev4) = remove_temp env w3
                in (Continue, w4, ev1 @ ev2 @ ev3 @ ev4))
           | _ \<Rightarrow> (Stopped, w2, ev1 @ ev2 @ [Error FolderNotFound]))"

text \<open>
  Lines 53--92. The handler of line 90 sees what the fetch, the write of the cache file
  and the opening of the zip file raise; it reports and stops.
\<close>

definition needs_download :: "world \<Rightarrow> bool" where
  "needs_download w = (case atp_data w of None \<Rightarrow> True | Some d \<Rightarrow> d = [])"

definition ensure_primary :: "env \<Rightarrow> world \<Rightarrow> flow \<times> world \<times> event list" where
  "ensure_primary env w =
     (if needs_download w then
        (case fetch_zip env w of
           (Some e, w1, ev1) \<Rightarrow> (Stopped, w1, ev1 @ [Error (DownloadFailed e)])
         | (None, w1, ev1) \<Rightarrow>
             (case zip_cache w1 of
                None \<Rightarrow> (Stopped, w1, ev1 @ [Error (DownloadFailed ''FileNotFoundError'')])
              | Some NotAZip \<Rightarrow>
                  (Stopped, w1, ev1 @ [Error (DownloadFailed ''File is not a zip file'')])
              | Some (Zip a) \<Rightarrow>
                  (let (f, w2, ev2) = stage env a w1 in (f, w2, ev1 @ ev2))))
      else (Continue, w, []))"

text \<open>
  Lines 99--113: the secondary source. Every failure is caught and becomes a warning;
  nothing here stops the run.
\<close>

definition kaggle_download :: "env \<Rightarrow> world \<Rightarrow> string + world \<times> event list" where
  "kaggle_download env w =
     (case makedirs env of
        Some e \<Rightarrow> Inl e
      | None \<Rightarrow>
          (if kaggle_zip w = None then
             (case kaggle_cli env of
                Inl e \<Rightarrow> Inl e
              | Inr z \<Rightarrow> Inr (w\<lparr>kaggle_zip := z\<rparr>, [KaggleCli]))
           else Inr (w, [])))"

text \<open>\<open>zip_ref.extractall(kaggle_dir)\<close> on one attempt, for the archive with that member.\<close>

definition extractall_kaggle ::
  "env \<Rightarrow> csv option \<Rightarrow> nat \<Rightarrow> csv option \<Rightarrow> string \<times> csv option + csv option" where
  "extractall_kaggle env member attempt target =
     (case extract_kaggle env attempt of
        Some (e, left) \<Rightarrow> Inl (e, left)
      | None \<Rightarrow> Inr (case member of None \<Rightarrow> target | Some c \<Rightarrow> Some c))"

definition ensure_secondary :: "env \<Rightarrow> world \<Rightarrow> world \<times> event list" where
  "ensure_secondary env w =
     (if kaggle_file w = None then
        (case kaggle_download env w of
           Inl e \<Rightarrow> (w, [Info KaggleDownloading, Warning (KaggleFailed e)])
         | Inr (w1, ev1) \<Rightarrow>
             (case kaggle_zip w1 of
                None \<Rightarrow>
                  (w1, Info KaggleDownloading # ev1 @ [Warning (KaggleFailed ''FileNotFoundError'')])
              | Some NotAZip \<Rightarrow>
                  (w1, Info KaggleDownloading # ev1 @ [Warning (KaggleFailed ''File is not a zip file'')])
              | Some (Zip member) \<Rightarrow>
                  (let (ok, target, ev2) =
                         try_extract_all (extractall_kaggle env member) 3 (kaggle_file w1);
                       w2 = w1\<lparr>kaggle_file := target\<rparr>
                   in if \<not> ok
                      then (w2, Info KaggleDownloading # ev1 @ ev2 @ [Warning KaggleExtractExhausted])
                      else (w2, Info KaggleDownloading # ev1 @ ev2))))
      else (w, []))"

section \<open>Loading and merging (tennis\_match\_predictor-v12.py, lines 116--138)\<close>

text \<open>
  \<open>glob.glob(os.path.join("atp_data", "atp_matches_*.csv"))\<close>: the entries of the primary
  directory whose name begins with \<open>atp_matches_\<close> and, after that, ends with \<open>.csv\<close>;
  none when the directory is absent. \<open>sorted\<close> orders the paths, which all begin with
  the directory's name, by the code points of the entry names.
\<close>

definition glob_match :: "string \<Rightarrow> bool" where
  "glob_match name =
     (take 12 name = ''atp_matches_'' \<and>
      (let rest = drop 12 name
       in 4 \<le> length rest \<and> drop (length rest - 4) rest = ''.csv''))"

definition sorted_glob :: "dir option \<Rightarrow> (string \<times> csv) list" where
  "sorted_glob primary =
     map (\<lambda>(name, c). (''atp_data/'' @ name, c))
       (sort_key fst (filter (\<lambda>(name, c). glob_match name)
                        (case primary of None \<Rightarrow> [] | Some d \<Rightarrow> d)))"

text \<open>
  Lines 119--124:
  \<^verbatim>\<open>dfs = []
for f in all_files:
    try:
        dfs.append(pd.read_csv(f))
    except Exception as e:
        st.warning(f"Skipping {f}: {e}")\<close>
\<close>

fun load_files :: "(string \<times> csv) list \<Rightarrow> table list \<times> event list" where
  "load_files [] = ([], [])"
| "load_files ((f, c) # fs) =
     (let (dfs, evs) = load_files fs
      in case c of
           Parsed t \<Rightarrow> (t # dfs, evs)
         | Unparsable e \<Rightarrow> (dfs, Warning (Skipping f e) # evs))"

text \<open>
  \<open>pd.concat(dfs, ignore_index=True)\<close>: the rows of the tables one after the other, under
  the union of the headers in the order of first occurrence. A merged column is of
  dtype object when it is so in one of the tables.
\<close>

definition pd_concat :: "table list \<Rightarrow> table" where
  "pd_concat dfs =
     \<lparr>columns = rev (remdups (rev (concat (map columns dfs)))),
      object_columns = rev (remdups (rev (concat (map object_columns dfs)))),
      rows = concat (map rows dfs)\<rparr>"

text \<open>
  How a run ends: with a value, by \<open>st.stop()\<close>, or by an exception that nothing
  catches.
\<close>

datatype 'a outcome = Done 'a | Halted | Crashed string

text \<open>
  Line 117, outside every \<open>try\<close>:
  \<^verbatim>\<open>kaggle_df = pd.read_csv(kaggle_file) if os.path.exists(kaggle_file) else pd.DataFrame()\<close>
\<close>

definition read_kaggle :: "csv option \<Rightarrow> string + table" where
  "read_kaggle file =
     (case file of
        None \<Rightarrow> Inr \<lparr>columns = [], object_columns = [], rows = []\<rparr>
      | Some (Unparsable e) \<Rightarrow> Inl e
      | Some (Parsed t) \<Rightarrow> Inr t)"

text \<open>
  Lines 137--138:
  \<^verbatim>\<open>df = df[df["winner_name"].notnull() & df["loser_name"].notnull()]
df = df[(df["surface"].notnull()) & (df["tourney_level"].notnull())]\<close>
  Selecting a column that the merged table does not have raises KeyError.
\<close>

definition drop_null_rows :: "table \<Rightarrow> string + table" where
  "drop_null_rows df =
     (if ''winner_name'' \<notin> set (columns df) then Inl ''KeyError: winner_name''
      else if ''loser_name'' \<notin> set (columns df) then Inl ''KeyError: loser_name''
      else
        let df1 = df\<lparr>rows := filter (\<lambda>r. winner_name r \<noteq> None \<and> loser_name r \<noteq> None) (rows df)\<rparr>
        in if ''surface'' \<notin> set (columns df1) then Inl ''KeyError: surface''
           else if ''tourney_level'' \<notin> set (columns df1) then Inl ''KeyError: tourney_level''
           else Inr (df1\<lparr>rows := filter (\<lambda>r. surface r \<noteq> None \<and> tourney_level r \<noteq> None)
                                    (rows df1)\<rparr>))"

text \<open>Lines 116--138.\<close>

definition load_and_merge :: "world \<Rightarrow> table outcome \<times> event list" where
  "load_and_merge w =
     (let all_files = sorted_glob (atp_data w)
      in case read_kaggle (kaggle_file w) of
           Inl e \<Rightarrow> (Crashed e, [])
         | Inr kaggle_df \<Rightarrow>
             (let (dfs0, evs) = load_files all_files;
                  dfs = (if length (rows kaggle_df) > 0 then dfs0 @ [kaggle_df] else dfs0)
              in if dfs = [] then (Halted, evs @ [Error NoValidData])
                 else
                   let df = pd_concat dfs;
                       evs1 = evs @ [Success (Loaded (length (rows df)))]
                   in case drop_null_rows df of
                        Inl e \<Rightarrow> (Crashed e, evs1)
                      | Inr df2 \<Rightarrow> (Done df2, evs1)))"

text \<open>
  The whole of one run up to the selectors: the lookup of the secrets, the primary
  source, the secondary source, the load. An exception in the first, which nothing
  catches, and a stop in the second end the run before the load.
\<close>

definition script :: "env \<Rightarrow> world \<Rightarrow> table outcome \<times> world \<times> event list" where
  "script env w =
     (case secrets_lookup env of
        Some e \<Rightarrow> (Crashed e, w, [])
      | None \<Rightarrow>
          (case ensure_primary env w of
             (Stopped, w1, ev1) \<Rightarrow> (Halted, w1, ev1)
           | (Continue, w1, ev1) \<Rightarrow>
               (let (w2, ev2) = ensure_secondary env w1;
                    (r, ev3) = load_and_merge w2
                in (r, w2, ev1 @ ev2 @ ev3))))"

section \<open>File selection of tennis\_match\_predictor-app.py (lines 34--39)\<close>

text \<open>
  Line 35:
  \<^verbatim>\<open>all_files = [f for f in all_files if f[-8:-4].isdigit() and 1981 <= int(f[-8:-4]) <= 2024]\<close>
  The slice \<open>f[-8:-4]\<close> runs from \<open>max(len(f) - 8, 0)\<close> to \<open>max(len(f) - 4, 0)\<close>;
  \<open>isdigit\<close> holds of a non-empty string of digits, and among the 8-bit characters the
  digits are 0 to 9 and the superscripts \<open>U+00B2\<close>, \<open>U+00B3\<close> and \<open>U+00B9\<close>; \<open>int\<close>
  reads a string of the digits 0 to 9 in base ten and raises ValueError on a
  superscript. \<open>and\<close> does not call \<open>int\<close> when \<open>isdigit\<close> is false. An exception
  raised inside the comprehension is caught by nothing and ends the run.
\<close>

definition year_slice :: "string \<Rightarrow> string" where
  "year_slice f =
     (let start = length f - 8; stop = length f - 4 in take (stop - start) (drop start f))"

definition is_decimal :: "char \<Rightarrow> bool" where
  "is_decimal c = (CHR ''0'' \<le> c \<and> c \<le> CHR ''9'')"

definition is_digit :: "char \<Rightarrow> bool" where
  "is_digit c =
     (is_decimal c \<or> c = CHR 0xB2 \<or> c = CHR 0xB3 \<or> c = CHR 0xB9)"

definition py_isdigit :: "string \<Rightarrow> bool" where
  "py_isdigit s = (s \<noteq> [] \<and> list_all is_digit s)"

definition py_int :: "string \<Rightarrow> string + nat" where
  "py_int s =
     (if s \<noteq> [] \<and> list_all is_decimal s
      then Inr (foldl (\<lambda>a c. 10 * a + (of_char c - 48)) 0 s)
      else Inl ''ValueError: invalid literal for int() with base 10'')"

definition year_ok :: "string \<Rightarrow> string + bool" where
  "year_ok f =
     (if py_isdigit (year_slice f) then
        (case py_int (year_slice f) of
           Inl e \<Rightarrow> Inl e
         | Inr year \<Rightarrow> Inr (1981 \<le> year \<and> year \<le> 2024))
      else Inr False)"

fun keep_years :: "(string \<times> csv) list \<Rightarrow> string + (string \<times> csv) list" where
  "keep_years [] = Inr []"
| "keep_years ((f, c) # fs) =
     (case year_ok f of
        Inl e \<Rightarrow> Inl e
      | Inr keep \<Rightarrow>
          (case keep_years fs of
             Inl e \<Rightarrow> Inl e
           | Inr kept \<Rightarrow> Inr (if keep then (f, c) # kept else kept)))"

definition app_all_files :: "dir option \<Rightarrow> string + (string \<times> csv) list" where
  "app_all_files primary = keep_years (sorted_glob primary)"

section \<open>The prediction routine (tennis\_match\_predictor-v12.py, lines 149--171)\<close>

text \<open>\<open>Series.isin(values)\<close> on one cell: a null cell is in no list of strings.\<close>

definition isin :: "string option \<Rightarrow> string list \<Rightarrow> bool" where
  "isin c vs = (case c of None \<Rightarrow> False | Some v \<Rightarrow> v \<in> set vs)"

text \<open>
  Line 150:
  \<^verbatim>\<open>match_data = df[(df["winner_name"].isin([player1, player2])) &
                  (df["loser_name"].isin([player1, player2]))]\<close>
\<close>

definition match_data :: "row list \<Rightarrow> string \<Rightarrow> string \<Rightarrow> row list" where
  "match_data df player1 player2 =
     filter (\<lambda>r. isin (winner_name r) [player1, player2] \<and>
                 isin (loser_name r) [player1, player2]) df"

text \<open>
  The specification's wording of the same subset, for comparison: the winner is one of
  the two players and the loser is the other one.
\<close>

definition spec_strictly_between :: "string \<Rightarrow> string \<Rightarrow> row \<Rightarrow> bool" where
  "spec_strictly_between a b r =
     ((winner_name r = Some a \<and> loser_name r = Some b) \<or>
      (winner_name r = Some b \<and> loser_name r = Some a))"

text \<open>
  A frame is kept column by column: the column's name and its values, one per row. A
  value is a cell or null; the indicator values True and False are the numbers 1 and 0,
  to which they are equal.

  \<open>pd.get_dummies\<close> expands the columns of dtype object and leaves the numeric ones as
  they are. The result has the columns it left first and then, for each expanded column
  in turn, one indicator column for each distinct non-null value, named
  \<open>column_value\<close> with the value printed by \<open>str\<close>. The values are in sorted order,
  numbers before strings.
\<close>

type_synonym frame = "(string \<times> cell option list) list"

datatype dtype = Object | Numeric

text \<open>\<open>str\<close> of a whole number.\<close>

fun str_nat :: "nat \<Rightarrow> string" where
  "str_nat n =
     (if n < 10 then [''0123456789'' ! n]
      else str_nat (n div 10) @ [''0123456789'' ! (n mod 10)])"

definition str_int :: "int \<Rightarrow> string" where
  "str_int i = (if i < 0 then ''-'' @ str_nat (nat (- i)) else str_nat (nat i))"

definition label :: "cell \<Rightarrow> string" where
  "label v = (case v of Str s \<Rightarrow> s | Num i \<Rightarrow> str_int i)"

definition categories :: "cell option list \<Rightarrow> cell list" where
  "categories cells =
     map Num (sort (remdups (List.map_filter (\<lambda>c. case c of Some (Num i) \<Rightarrow> Some i | _ \<Rightarrow> None) cells))) @
     map Str (sort (remdups (List.map_filter (\<lambda>c. case c of Some (Str s) \<Rightarrow> Some s | _ \<Rightarrow> None) cells)))"

definition dummy_columns :: "string \<Rightarrow> cell option list \<Rightarrow> frame" where
  "dummy_columns prefix cells =
     map (\<lambda>v. (prefix @ ''_'' @ label v,
                map (\<lambda>c. if c = Some v then Some (Num 1) else Some (Num 0)) cells))
       (categories cells)"

definition get_dummies :: "(string \<times> dtype \<times> cell option list) list \<Rightarrow> frame" where
  "get_dummies fr =
     map (\<lambda>(name, d, cells). (name, cells)) (filter (\<lambda>(name, d, cells). d = Numeric) fr) @
     concat (map (\<lambda>(name, d, cells). dummy_columns name cells)
               (filter (\<lambda>(name, d, cells). d = Object) fr))"

text \<open>
  \<open>DataFrame.reindex(columns=target, fill_value=0)\<close>: the result has exactly the target
  columns, a column the frame has is taken from it and any other is filled with zero.
  pandas refuses to reindex a frame whose own column labels are duplicated.
\<close>

definition nrows :: "frame \<Rightarrow> nat" where
  "nrows fr = (case fr of [] \<Rightarrow> 0 | (_, vs) # _ \<Rightarrow> length vs)"

definition reindex :: "frame \<Rightarrow> string list \<Rightarrow> string + frame" where
  "reindex fr target =
     (if \<not> distinct (map fst fr)
      then Inl ''cannot reindex on an axis with duplicate labels''
      else Inr (map (\<lambda>c. case map_of fr c of
                            Some vs \<Rightarrow> (c, vs)
                          | None \<Rightarrow> (c, replicate (nrows fr) (Some (Num 0)))) target))"

text \<open>
  Lines 164--165:
  \<^verbatim>\<open>test_input = pd.DataFrame([[surface, tourney_level]], columns=["surface", "tourney_level"])
test_input = pd.get_dummies(test_input).reindex(columns=X.columns, fill_value=0)\<close>
  In the frame of one row a column is of dtype object when its value is a string and
  numeric when it is a number.
\<close>

definition dtype_of :: "cell \<Rightarrow> dtype" where
  "dtype_of v = (case v of Str s \<Rightarrow> Object | Num i \<Rightarrow> Numeric)"

definition encode_query :: "cell \<Rightarrow> cell \<Rightarrow> string list \<Rightarrow> string + frame" where
  "encode_query surface_sel level_sel X_columns =
     reindex (get_dummies [(''surface'', dtype_of surface_sel, [Some surface_sel]),
                           (''tourney_level'', dtype_of level_sel, [Some level_sel])])
       X_columns"

text \<open>
  The gradient-boosted classifier is a library outside the repository: it is a
  parameter of the model. Each of its three calls may raise.
\<close>

record ('m, 'p) classifier =
  fit :: "frame \<Rightarrow> bool list \<Rightarrow> string + 'm"
  predict_label :: "'m \<Rightarrow> frame \<Rightarrow> string + bool"
  predict_proba :: "'m \<Rightarrow> frame \<Rightarrow> string + 'p list"

text \<open>A classifier that ignores its training data, to run the routine on concrete inputs.\<close>

definition constant_classifier :: "bool \<Rightarrow> 'p list \<Rightarrow> (unit, 'p) classifier" where
  "constant_classifier b ps =
     \<lparr>fit = (\<lambda>X y. Inr ()), predict_label = (\<lambda>m x. Inr b), predict_proba = (\<lambda>m x. Inr ps)\<rparr>"

text \<open>
  What pressing the button shows: the warning of line 152, the success message of line
  171 with the winner and the probability of the predicted class, or an exception that
  nothing catches.
\<close>

datatype 'p shown =
    NoHeadToHeadData
  | PredictedWinner string 'p
  | Raised string

text \<open>
  Line 156, \<open>features = match_data[["surface", "tourney_level"]]\<close>, with the dtype each
  column has in the dataset.
\<close>

definition column_dtype :: "table \<Rightarrow> string \<Rightarrow> dtype" where
  "column_dtype df name = (if name \<in> set (object_columns df) then Object else Numeric)"

definition features :: "table \<Rightarrow> row list \<Rightarrow> string + (string \<times> dtype \<times> cell option list) list" where
  "features df md =
     (if ''surface'' \<notin> set (columns df) then Inl ''KeyError: surface''
      else if ''tourney_level'' \<notin> set (columns df) then Inl ''KeyError: tourney_level''
      else Inr [(''surface'', column_dtype df ''surface'', map surface md),
                (''tourney_level'', column_dtype df ''tourney_level'', map tourney_level md)])"

text \<open>
  Lines 150--171. The selectors hand over values of the dataset whenever it has a row;
  on an empty dataset the subset is empty whatever they hand over.
\<close>

definition predict ::
  "('m, 'p) classifier \<Rightarrow> table \<Rightarrow> string \<Rightarrow> string \<Rightarrow> cell \<Rightarrow> cell \<Rightarrow> 'p shown" where
  "predict clf df player1 player2 surface_sel level_sel =
     (let md = match_data (rows df) player1 player2 in
      if md = [] then NoHeadToHeadData
      else
        let p1_win = map (\<lambda>r. winner_name r = Some player1) md
        in case features df md of
             Inl e \<Rightarrow> Raised e
           | Inr selected \<Rightarrow>
               (let X = get_dummies selected
                in case fit clf X p1_win of
                     Inl e \<Rightarrow> Raised e
                   | Inr model \<Rightarrow>
                       (case encode_query surface_sel level_sel (map fst X) of
                          Inl e \<Rightarrow> Raised e
                        | Inr test_input \<Rightarrow>
                            (case predict_label clf model test_input of
                               Inl e \<Rightarrow> Raised e
                             | Inr prediction \<Rightarrow>
                                 (case predict_proba clf model test_input of
                                    Inl e \<Rightarrow> Raised e
                                  | Inr probs \<Rightarrow>
                                      (let i = (if prediction then 1 else 0 :: nat) in
                                       if i < length probs
                                       then PredictedWinner
                                              (if prediction then player1 else player2)
                                              (probs ! i)
                                       else Raised ''IndexError''))))))"

text \<open>
  One run with the button pressed: the script is run from the top, and the routine gets
  the dataset that the load has produced.
\<close>

definition on_button ::
  "('m, 'p) classifier \<Rightarrow> env \<Rightarrow> world \<Rightarrow> string \<Rightarrow> string \<Rightarrow> cell \<Rightarrow> cell \<Rightarrow>
     'p shown outcome" where
  "on_button clf env w player1 player2 surface_sel level_sel =
     (case fst (script env w) of
        Done df \<Rightarrow> Done (predict clf df player1 player2 surface_sel level_sel)
      | Halted \<Rightarrow> Halted
      | Crashed e \<Rightarrow> Crashed e)"

section \<open>Concrete inputs\<close>

text \<open>
  A table of two rows, the second without a surface; a machine on which the program has
  never run; and a run in which every call succeeds, the archive holding one per-year
  file, and in which there are no Kaggle credentials. The instances below are built
  from them.
\<close>

definition sample_table :: table where
  "sample_table =
     \<lparr>columns = [''winner_name'', ''loser_name'', ''surface'', ''tourney_level''],
      object_columns = [''winner_name'', ''loser_name'', ''surface'', ''tourney_level''],
      rows = [\<lparr>winner_name = Some ''A'', loser_name = Some ''B'',
               surface = Some (Str ''Clay''), tourney_level = Some (Str ''G'')\<rparr>,
              \<lparr>winner_name = Some ''B'', loser_name = Some ''A'',
               surface = None, tourney_level = Some (Str ''G'')\<rparr>]\<rparr>"

definition fresh_world :: world where
  "fresh_world =
     \<lparr>atp_data = None, zip_cache = None, temp_dir = None, kaggle_zip = None,
      kaggle_file = None\<rparr>"

definition nothing_fails :: env where
  "nothing_fails =
     \<lparr>secrets_lookup = None,
      http_get = Inr (Zip (Some [(''atp_matches_2000.csv'', Parsed sample_table)])),
      write_zip = None, rm_temp_before = None, extract_primary = (\<lambda>k. None),
      rm_atp_data = None, rename_dir = None, rm_temp_after = None, makedirs = None,
      kaggle_cli = Inl ''no credentials'', extract_kaggle = (\<lambda>k. None)\<rparr>"

lemmas run_defs =
  ensure_primary_def needs_download_def fetch_zip_def stage_def clean_temp_def
  try_extract_all_def extractall_primary_def extractall_kaggle_def extracted_def
  move_into_place_def remove_temp_def ensure_secondary_def kaggle_download_def script_def

lemmas load_defs =
  load_and_merge_def sorted_glob_def glob_match_def read_kaggle_def pd_concat_def
  drop_null_rows_def

lemmas input_defs = fresh_world_def nothing_fails_def sample_table_def

section \<open>Properties of the prediction routine\<close>

lemma isin_pair: "isin c [a, b] \<longleftrightarrow> c = Some a \<or> c = Some b"
  by (cases c) (auto simp: isin_def)

lemma query_dummies:
  "get_dummies [(''surface'', dtype_of s, [Some s]), (''tourney_level'', dtype_of l, [Some l])] =
     (case s of
        Str u \<Rightarrow>
          (case l of
             Str v \<Rightarrow> [(''surface_'' @ u, [Some (Num 1)]), (''tourney_level_'' @ v, [Some (Num 1)])]
           | Num j \<Rightarrow> [(''tourney_level'', [Some (Num j)]), (''surface_'' @ u, [Some (Num 1)])])
      | Num i \<Rightarrow>
          (case l of
             Str v \<Rightarrow> [(''surface'', [Some (Num i)]), (''tourney_level_'' @ v, [Some (Num 1)])]
           | Num j \<Rightarrow> [(''surface'', [Some (Num i)]), (''tourney_level'', [Some (Num j)])]))"
  by (simp add: get_dummies_def dummy_columns_def categories_def dtype_of_def label_def
        List.map_filter_simps split: cell.splits)

text \<open>
  C1, as amended. The filter of line 150 tests the winner and the loser separately
  against the pair of selected names. For a row whose winner and loser differ, being in
  the subset is being a row of the dataset that is a match strictly between the two
  players; a row whose winner and loser are the same name is in the subset exactly when
  that name is one of the two selected.
\<close>

theorem match_data_membership:
  "(winner_name r \<noteq> loser_name r \<longrightarrow>
      (r \<in> set (match_data df a b) \<longleftrightarrow> r \<in> set df \<and> spec_strictly_between a b r)) \<and>
   (winner_name r = loser_name r \<longrightarrow>
      (r \<in> set (match_data df a b) \<longleftrightarrow>
         r \<in> set df \<and> (winner_name r = Some a \<or> winner_name r = Some b)))"
  by (auto simp: match_data_def isin_pair spec_strictly_between_def)

theorem match_data_membership_witness:
  "Some ''A'' \<noteq> Some ''B'' \<and>
   \<lparr>winner_name = Some ''A'', loser_name = Some ''B'',
    surface = Some (Str ''Clay''), tourney_level = Some (Str ''G'')\<rparr>
     \<in> set (match_data
              [\<lparr>winner_name = Some ''A'', loser_name = Some ''B'',
                surface = Some (Str ''Clay''), tourney_level = Some (Str ''G'')\<rparr>] ''B'' ''A'') \<and>
   \<lparr>winner_name = Some ''A'', loser_name = Some ''A'',
    surface = Some (Str ''Clay''), tourney_level = Some (Str ''G'')\<rparr>
     \<in> set (match_data
              [\<lparr>winner_name = Some ''A'', loser_name = Some ''A'',
                surface = Some (Str ''Clay''), tourney_level = Some (Str ''G'')\<rparr>] ''B'' ''A'')"
  using match_data_membership
          [of "\<lparr>winner_name = Some ''A'', loser_name = Some ''B'',
                surface = Some (Str ''Clay''), tourney_level = Some (Str ''G'')\<rparr>"
              "[\<lparr>winner_name = Some ''A'', loser_name = Some ''B'',
                 surface = Some (Str ''Clay''), tourney_level = Some (Str ''G'')\<rparr>]" "''B''" "''A''"]
        match_data_membership
          [of "\<lparr>winner_name = Some ''A'', loser_name = Some ''A'',
                surface = Some (Str ''Clay''), tourney_level = Some (Str ''G'')\<rparr>"
              "[\<lparr>winner_name = Some ''A'', loser_name = Some ''A'',
                 surface = Some (Str ''Clay''), tourney_level = Some (Str ''G'')\<rparr>]" "''B''" "''A''"]
  by (simp add: spec_strictly_between_def)

text \<open>
  C1 as stated fails: with players A and B selected, the row in which A beat A is in the
  subset, and it is not a match strictly between A and B.
\<close>

theorem match_data_same_name_counterexample:
  "\<lparr>winner_name = Some ''A'', loser_name = Some ''A'',
    surface = Some (Str ''Clay''), tourney_level = Some (Str ''G'')\<rparr>
     \<in> set (match_data
              [\<lparr>winner_name = Some ''A'', loser_name = Some ''A'',
                surface = Some (Str ''Clay''), tourney_level = Some (Str ''G'')\<rparr>] ''A'' ''B'') \<and>
   \<not> spec_strictly_between ''A'' ''B''
       \<lparr>winner_name = Some ''A'', loser_name = Some ''A'',
        surface = Some (Str ''Clay''), tourney_level = Some (Str ''G'')\<rparr>"
  by (simp add: match_data_def isin_def spec_strictly_between_def)

text \<open>
  C6, as amended. The routine shows the warning, and neither a winner nor an exception,
  exactly when the dataset has no row whose winner and whose loser are both among the
  two selected names, whatever the classifier is.
\<close>

theorem predict_warns_iff:
  "predict clf df a b s l = NoHeadToHeadData \<longleftrightarrow>
     (\<forall>r \<in> set (rows df). \<not> (isin (winner_name r) [a, b] \<and> isin (loser_name r) [a, b]))"
  by (auto simp: predict_def Let_def match_data_def filter_empty_conv split: sum.splits)

theorem predict_warns_iff_witness:
  "predict (constant_classifier True [0, 1 :: rat])
     \<lparr>columns = [''winner_name'', ''loser_name'', ''surface'', ''tourney_level''],
      object_columns = [''winner_name'', ''loser_name'', ''surface'', ''tourney_level''],
      rows = [\<lparr>winner_name = Some ''A'', loser_name = Some ''C'',
               surface = Some (Str ''Clay''), tourney_level = Some (Str ''G'')\<rparr>]\<rparr>
     ''A'' ''B'' (Str ''Clay'') (Str ''G'') = NoHeadToHeadData"
  using predict_warns_iff
          [of "constant_classifier True [0, 1 :: rat]"
              "\<lparr>columns = [''winner_name'', ''loser_name'', ''surface'', ''tourney_level''],
      object_columns = [''winner_name'', ''loser_name'', ''surface'', ''tourney_level''],
                rows = [\<lparr>winner_name = Some ''A'', loser_name = Some ''C'',
                         surface = Some (Str ''Clay''), tourney_level = Some (Str ''G'')\<rparr>]\<rparr>"
              "''A''" "''B''" "Str ''Clay''" "Str ''G''"]
  by (simp add: isin_def)

text \<open>
  C6 as stated fails: the dataset whose only row has B beating B holds no match between A
  and B, and with A and B selected the routine names a winner.
\<close>

theorem predict_same_name_counterexample:
  "filter (spec_strictly_between ''A'' ''B'')
     [\<lparr>winner_name = Some ''B'', loser_name = Some ''B'',
       surface = Some (Str ''Clay''), tourney_level = Some (Str ''G'')\<rparr>] = [] \<and>
   predict (constant_classifier False [1, 0 :: rat])
     \<lparr>columns = [''winner_name'', ''loser_name'', ''surface'', ''tourney_level''],
      object_columns = [''winner_name'', ''loser_name'', ''surface'', ''tourney_level''],
      rows = [\<lparr>winner_name = Some ''B'', loser_name = Some ''B'',
               surface = Some (Str ''Clay''), tourney_level = Some (Str ''G'')\<rparr>]\<rparr>
     ''A'' ''B'' (Str ''Clay'') (Str ''G'') = PredictedWinner ''B'' 1"
  by (simp add: predict_def match_data_def isin_def constant_classifier_def
        spec_strictly_between_def features_def encode_query_def query_dummies reindex_def)


text \<open>
  The case of the futures files: the level 15 is a number in a column that also holds
  strings. The training matrix has the indicator column of 15, and the query that
  selects 15 has a 0 there.
\<close>

lemma numeric_level_query:
  "get_dummies [(''surface'', Object, [Some (Str ''Hard''), Some (Str ''Clay'')]),
                (''tourney_level'', Object, [Some (Num 15), Some (Str ''G'')])] =
     [(''surface_Clay'', [Some (Num 0), Some (Num 1)]),
      (''surface_Hard'', [Some (Num 1), Some (Num 0)]),
      (''tourney_level_15'', [Some (Num 1), Some (Num 0)]),
      (''tourney_level_G'', [Some (Num 0), Some (Num 1)])] \<and>
   encode_query (Str ''Hard'') (Num 15)
       [''surface_Clay'', ''surface_Hard'', ''tourney_level_15'', ''tourney_level_G''] =
     Inr [(''surface_Clay'', [Some (Num 0)]), (''surface_Hard'', [Some (Num 1)]),
          (''tourney_level_15'', [Some (Num 0)]), (''tourney_level_G'', [Some (Num 0)])]"
  by (simp add: get_dummies_def dummy_columns_def categories_def label_def str_int_def
        List.map_filter_simps encode_query_def dtype_of_def reindex_def nrows_def)

section \<open>Properties of the acquisition\<close>

lemma extract_loop_events:
  "ev \<in> set (snd (snd (extract_loop ex n k t))) \<Longrightarrow>
     ev = ExtractAll \<or> (\<exists>i e. ev = Warning (AttemptFailed i e)) \<or> (\<exists>d. ev = Sleep d)"
proof (induction n arbitrary: k t)
  case 0
  then show ?case by simp
next
  case (Suc n)
  show ?case
  proof (cases "ex k t")
    case (Inr t')
    with Suc.prems show ?thesis by simp
  next
    case (Inl p)
    obtain e t' where p: "p = (e, t')" by (cases p)
    obtain ok t'' evs where rest: "extract_loop ex n (Suc k) t' = (ok, t'', evs)"
      by (cases "extract_loop ex n (Suc k) t'")
    from Suc.prems Inl p rest
    have "ev = ExtractAll \<or> ev = Warning (AttemptFailed (k + 1) e) \<or>
          ev = Sleep (3 / 2 * of_nat (k + 1)) \<or> ev \<in> set evs"
      by auto
    with Suc.IH [of "Suc k" t'] rest show ?thesis by auto
  qed
qed

lemma extract_loop_no_http: "HttpGet \<notin> set (snd (snd (extract_loop ex n k t)))"
  using extract_loop_events [of HttpGet ex n k t] by auto

lemma extract_loop_no_error: "Error m \<notin> set (snd (snd (extract_loop ex n k t)))"
  using extract_loop_events [of "Error m" ex n k t] by auto

text \<open>
  When every attempt raises, the helper makes as many attempts as \<open>max_retries\<close> says,
  each followed by its warning and its sleep.
\<close>

lemma extract_loop_all_fail_any:
  "(\<And>j s. ex j s = Inl (msg j, left j)) \<Longrightarrow>
   extract_loop ex n k t =
     (False, (if n = 0 then t else left (k + n - 1)),
      concat (map (\<lambda>j. [ExtractAll, Warning (AttemptFailed (j + 1) (msg j)),
                          Sleep (3 / 2 * of_nat (j + 1))]) [k ..< k + n]))"
proof (induction n arbitrary: k t)
  case 0
  show ?case by simp
next
  case (Suc n)
  show ?case
    using Suc.IH [of "Suc k" "left k", OF Suc.prems]
    by (simp add: Suc.prems upt_conv_Cons del: upt_Suc)
qed

lemma extract_loop_all_fail:
  "(\<And>j s. ex j s = Inl (msg j, left j)) \<Longrightarrow>
   extract_loop ex 3 0 t =
     (False, left 2,
      [ExtractAll, Warning (AttemptFailed 1 (msg 0)), Sleep (3 / 2),
       ExtractAll, Warning (AttemptFailed 2 (msg 1)), Sleep 3,
       ExtractAll, Warning (AttemptFailed 3 (msg 2)), Sleep (9 / 2)])"
  by (simp add: numeral_3_eq_3 numeral_2_eq_2)

text \<open>
  C3. When \<open>extractall\<close> raises on every attempt, the helper as the primary call site
  calls it makes three attempts and no more; after the failed attempt number 1, 2 and 3
  it warns and sleeps 1.5, 3 and 4.5 seconds, and it returns False. The staging step
  does exactly this after cleaning, reports the error of line 71 and stops. So does the
  primary acquisition when it has an archive to open, and the script ends there, the
  secrets having been found.
\<close>

theorem extraction_gives_up_after_three:
  assumes "\<And>k. extract_primary env k = Some (msg k, left k)"
  shows "(let attempts =
                [ExtractAll, Warning (AttemptFailed 1 (msg 0)), Sleep (3 / 2),
                 ExtractAll, Warning (AttemptFailed 2 (msg 1)), Sleep 3,
                 ExtractAll, Warning (AttemptFailed 3 (msg 2)), Sleep (9 / 2)]
          in try_extract_all (extractall_primary env a) 3 target = (False, left 2, attempts) \<and>
             stage env a w =
               (Stopped, (fst (clean_temp env w))\<lparr>temp_dir := left 2\<rparr>,
                snd (clean_temp env w) @ attempts @ [Error ExtractExhausted]) \<and>
             (needs_download w \<and> fetch_zip env w = (None, w1, ev1) \<and>
              zip_cache w1 = Some (Zip a) \<longrightarrow>
                ensure_primary env w =
                  (Stopped, (fst (clean_temp env w1))\<lparr>temp_dir := left 2\<rparr>,
                   ev1 @ snd (clean_temp env w1) @ attempts @ [Error ExtractExhausted]) \<and>
                (secrets_lookup env = None \<longrightarrow>
                   script env w =
                     (Halted, (fst (clean_temp env w1))\<lparr>temp_dir := left 2\<rparr>,
                      ev1 @ snd (clean_temp env w1) @ attempts @ [Error ExtractExhausted]))))"
proof -
  have act: "extractall_primary env a j s = Inl (msg j, left j)" for j s
    by (simp add: extractall_primary_def assms)
  have loop: "try_extract_all (extractall_primary env a) 3 t =
      (False, left 2,
       [ExtractAll, Warning (AttemptFailed 1 (msg 0)), Sleep (3 / 2),
        ExtractAll, Warning (AttemptFailed 2 (msg 1)), Sleep 3,
        ExtractAll, Warning (AttemptFailed 3 (msg 2)), Sleep (9 / 2)])" for t
    unfolding try_extract_all_def
    by (rule extract_loop_all_fail [of "extractall_primary env a" msg left, OF act])
  have st: "stage env a v =
      (Stopped, (fst (clean_temp env v))\<lparr>temp_dir := left 2\<rparr>,
       snd (clean_temp env v) @
         [ExtractAll, Warning (AttemptFailed 1 (msg 0)), Sleep (3 / 2),
          ExtractAll, Warning (AttemptFailed 2 (msg 1)), Sleep 3,
          ExtractAll, Warning (AttemptFailed 3 (msg 2)), Sleep (9 / 2)] @
         [Error ExtractExhausted])" for v
    by (simp add: stage_def loop split: prod.splits)
  show ?thesis
    by (simp add: Let_def loop st ensure_primary_def script_def)
qed

theorem extraction_gives_up_after_three_witness:
  "script (nothing_fails\<lparr>extract_primary := (\<lambda>k. Some (''disk full'', Some None))\<rparr>) fresh_world =
     (Halted,
      fresh_world\<lparr>zip_cache := Some (Zip (Some [(''atp_matches_2000.csv'', Parsed sample_table)])),
                  temp_dir := Some None\<rparr>,
      [HttpGet,
       ExtractAll, Warning (AttemptFailed 1 ''disk full''), Sleep (3 / 2),
       ExtractAll, Warning (AttemptFailed 2 ''disk full''), Sleep 3,
       ExtractAll, Warning (AttemptFailed 3 ''disk full''), Sleep (9 / 2),
       Error ExtractExhausted])"
  using extraction_gives_up_after_three
          [of "nothing_fails\<lparr>extract_primary := (\<lambda>k. Some (''disk full'', Some None))\<rparr>"
              "\<lambda>k. ''disk full''" "\<lambda>k. Some None"
              "Some [(''atp_matches_2000.csv'', Parsed sample_table)]"
              None fresh_world
              "fresh_world\<lparr>zip_cache :=
                 Some (Zip (Some [(''atp_matches_2000.csv'', Parsed sample_table)]))\<rparr>"
              "[HttpGet]"]
  by (simp add: Let_def nothing_fails_def fresh_world_def needs_download_def fetch_zip_def
        clean_temp_def)

lemma fetch_zip_events: "set (snd (snd (fetch_zip env w))) \<subseteq> {HttpGet}"
  by (auto simp: fetch_zip_def split: sum.splits option.splits)

lemma fetch_zip_atp_data: "atp_data (fst (snd (fetch_zip env w))) = atp_data w"
  by (auto simp: fetch_zip_def split: sum.splits option.splits)

lemma clean_temp_atp_data: "atp_data (fst (clean_temp env w)) = atp_data w"
  by (auto simp: clean_temp_def split: option.splits)

lemma clean_temp_events: "ev \<in> set (snd (clean_temp env w)) \<Longrightarrow> \<exists>e. ev = Warning (CleanTempFailed e)"
  by (auto simp: clean_temp_def split: option.splits if_splits)

lemma stage_no_http: "HttpGet \<notin> set (snd (snd (stage env a w)))"
proof -
  obtain w1 ev1 where c: "clean_temp env w = (w1, ev1)"
    by (cases "clean_temp env w")
  obtain ok t ev2 where x: "try_extract_all (extractall_primary env a) 3 (temp_dir w1) = (ok, t, ev2)"
    by (cases "try_extract_all (extractall_primary env a) 3 (temp_dir w1)")
  have h1: "HttpGet \<notin> set ev1"
    using clean_temp_events [of HttpGet env w] c by auto
  have h2: "HttpGet \<notin> set ev2"
    using extract_loop_no_http [of "extractall_primary env a" 3 0 "temp_dir w1"] x
    by (simp add: try_extract_all_def)
  show ?thesis
    using h1 h2
    by (auto simp: stage_def c x Let_def move_into_place_def remove_temp_def
          split: prod.splits option.splits if_splits)
qed

lemma first_run:
  "ensure_primary nothing_fails fresh_world =
     (Continue,
      fresh_world\<lparr>atp_data := Some [(''atp_matches_2000.csv'', Parsed sample_table)],
                  zip_cache := Some (Zip (Some [(''atp_matches_2000.csv'', Parsed sample_table)]))\<rparr>,
      [HttpGet, ExtractAll])"
  by (simp add: run_defs nothing_fails_def fresh_world_def numeral_3_eq_3)

text \<open>
  C8. A run of the primary acquisition that continues and leaves the primary directory
  non-empty is followed, whatever the network and the file system then do, by a run
  that does nothing at all: no event, hence no fetch, and the same world. And a run
  that finds the cached zip file never fetches, also when the primary directory is
  absent.
\<close>

theorem ensure_primary_idempotent:
  "(ensure_primary env w = (Continue, w1, evs) \<and> atp_data w1 = Some d \<and> d \<noteq> [] \<longrightarrow>
      ensure_primary env' w1 = (Continue, w1, [])) \<and>
   (zip_cache w \<noteq> None \<longrightarrow> HttpGet \<notin> set (snd (snd (ensure_primary env w))))"
proof (intro conjI impI)
  assume "ensure_primary env w = (Continue, w1, evs) \<and> atp_data w1 = Some d \<and> d \<noteq> []"
  then show "ensure_primary env' w1 = (Continue, w1, [])"
    by (simp add: ensure_primary_def needs_download_def)
next
  assume z: "zip_cache w \<noteq> None"
  then have f: "fetch_zip env w = (None, w, [])"
    by (auto simp: fetch_zip_def)
  show "HttpGet \<notin> set (snd (snd (ensure_primary env w)))"
    using z stage_no_http [of env _ w]
    by (auto simp: ensure_primary_def f split: option.splits archive.splits prod.splits)
qed

theorem ensure_primary_idempotent_witness:
  "ensure_primary (nothing_fails\<lparr>http_get := Inl ''offline''\<rparr>)
     (fresh_world\<lparr>atp_data := Some [(''atp_matches_2000.csv'', Parsed sample_table)],
                 zip_cache := Some (Zip (Some [(''atp_matches_2000.csv'', Parsed sample_table)]))\<rparr>)
     = (Continue,
        fresh_world\<lparr>atp_data := Some [(''atp_matches_2000.csv'', Parsed sample_table)],
                    zip_cache := Some (Zip (Some [(''atp_matches_2000.csv'', Parsed sample_table)]))\<rparr>,
        []) \<and>
   HttpGet \<notin> set (snd (snd (ensure_primary nothing_fails
                               (fresh_world\<lparr>zip_cache := Some (Zip (Some []))\<rparr>))))"
  using ensure_primary_idempotent
          [of nothing_fails fresh_world
              "fresh_world\<lparr>atp_data := Some [(''atp_matches_2000.csv'', Parsed sample_table)],
                 zip_cache := Some (Zip (Some [(''atp_matches_2000.csv'', Parsed sample_table)]))\<rparr>"
              "[HttpGet, ExtractAll]"
              "[(''atp_matches_2000.csv'', Parsed sample_table)]"
              "nothing_fails\<lparr>http_get := Inl ''offline''\<rparr>"]
        ensure_primary_idempotent
          [of nothing_fails "fresh_world\<lparr>zip_cache := Some (Zip (Some []))\<rparr>"]
        first_run
  by (simp add: fresh_world_def)

lemma ensure_secondary_atp_data: "atp_data (fst (ensure_secondary env w)) = atp_data w"
  by (auto simp: ensure_secondary_def kaggle_download_def Let_def
        split: sum.splits option.splits archive.splits prod.splits if_splits)

lemma remove_temp_atp_data: "atp_data (fst (remove_temp env w)) = atp_data w"
  by (auto simp: remove_temp_def split: option.splits)

text \<open>
  The move of lines 76--81 fails when the removal of an existing primary directory
  raises, or when the removal is not needed or succeeds and the rename raises. The step
  reports the error of line 81, and the primary directory is what the removal has left,
  or absent.
\<close>

lemma move_into_place_fails:
  "(atp_data w \<noteq> None \<and> rm_atp_data env = Some (e, left)) \<or>
   ((atp_data w = None \<or> rm_atp_data env = None) \<and> rename_dir env = Some e \<and> left = None) \<Longrightarrow>
   move_into_place env d w = (w\<lparr>atp_data := left\<rparr>, [Error (MoveFailed e)])"
  by (auto simp: move_into_place_def)

text \<open>
  C9. Let the primary acquisition have an archive to open, let the extraction succeed
  within its three attempts and leave the expected folder, and let the move then fail,
  by the removal or by the rename. Then the acquisition reports the error of line 81,
  tries to remove the staging directory, and continues; the primary directory is what
  the failed move has left, possibly nothing. The script, the secrets having been
  found, goes on through the secondary source, which does not touch the primary
  directory, into the load, and the run ends as the load ends.
\<close>

theorem move_failure_not_fatal:
  assumes need: "needs_download w"
    and fetch: "fetch_zip env w = (None, w1, ev1)"
    and zip: "zip_cache w1 = Some (Zip a)"
    and ext: "try_extract_all (extractall_primary env a) 3 (temp_dir (fst (clean_temp env w1))) =
                (True, Some (Some d), ev2)"
    and fails: "(atp_data w \<noteq> None \<and> rm_atp_data env = Some (e, left)) \<or>
                ((atp_data w = None \<or> rm_atp_data env = None) \<and> rename_dir env = Some e \<and>
                 left = None)"
  shows "(let w3 = (fst (clean_temp env w1))\<lparr>temp_dir := Some (Some d), atp_data := left\<rparr>;
              w4 = fst (remove_temp env w3);
              evs = ev1 @ snd (clean_temp env w1) @ ev2 @ [Error (MoveFailed e)] @
                    snd (remove_temp env w3);
              w5 = fst (ensure_secondary env w4)
          in ensure_primary env w = (Continue, w4, evs) \<and>
             atp_data w4 = left \<and>
             (secrets_lookup env = None \<longrightarrow>
                atp_data w5 = left \<and>
                script env w =
                  (fst (load_and_merge w5), w5,
                   evs @ snd (ensure_secondary env w4) @ snd (load_and_merge w5))))"
proof -
  obtain wc evc where c: "clean_temp env w1 = (wc, evc)"
    by (cases "clean_temp env w1")
  have a1: "atp_data w1 = atp_data w"
    using fetch_zip_atp_data [of env w] fetch by simp
  have ac: "atp_data wc = atp_data w"
    using clean_temp_atp_data [of env w1] c a1 by simp
  have mv: "move_into_place env d (wc\<lparr>temp_dir := Some (Some d)\<rparr>) =
              (wc\<lparr>temp_dir := Some (Some d), atp_data := left\<rparr>, [Error (MoveFailed e)])"
    using move_into_place_fails [of "wc\<lparr>temp_dir := Some (Some d)\<rparr>" env e left d] fails ac
    by simp
  obtain w4 ev4 where r: "remove_temp env (wc\<lparr>temp_dir := Some (Some d), atp_data := left\<rparr>) = (w4, ev4)"
    by (cases "remove_temp env (wc\<lparr>temp_dir := Some (Some d), atp_data := left\<rparr>)")
  have a4: "atp_data w4 = left"
    using remove_temp_atp_data [of env "wc\<lparr>temp_dir := Some (Some d), atp_data := left\<rparr>"] r
    by simp
  have st: "stage env a w1 = (Continue, w4, evc @ ev2 @ [Error (MoveFailed e)] @ ev4)"
    using ext c by (simp add: stage_def mv r)
  have ep: "ensure_primary env w = (Continue, w4, ev1 @ evc @ ev2 @ [Error (MoveFailed e)] @ ev4)"
    by (simp add: ensure_primary_def need fetch zip st)
  obtain w5 ev5 where s5: "ensure_secondary env w4 = (w5, ev5)"
    by (cases "ensure_secondary env w4")
  have a5: "atp_data w5 = left"
    using ensure_secondary_atp_data [of env w4] s5 a4 by simp
  show ?thesis
    by (simp add: Let_def c r ep a4 s5 a5 script_def split: prod.splits)
qed

lemma rename_fails_extraction:
  "try_extract_all (extractall_primary (nothing_fails\<lparr>rename_dir := Some ''busy''\<rparr>)
       (Some [(''atp_matches_2000.csv'', Parsed sample_table)])) 3 None =
     (True, Some (Some [(''atp_matches_2000.csv'', Parsed sample_table)]), [ExtractAll])"
  by (simp add: try_extract_all_def extractall_primary_def extracted_def nothing_fails_def
        numeral_3_eq_3)

lemma removal_fails_extraction:
  "try_extract_all
       (extractall_primary
          (nothing_fails\<lparr>extract_primary := (\<lambda>k. if k = 0 then Some (''busy'', Some None) else None),
                          rm_atp_data := Some (''read-only'', Some [])\<rparr>)
       (Some [(''atp_matches_2000.csv'', Parsed sample_table)])) 3 None =
     (True, Some (Some [(''atp_matches_2000.csv'', Parsed sample_table)]),
      [ExtractAll, Warning (AttemptFailed 1 ''busy''), Sleep (3 / 2), ExtractAll])"
  by (simp add: try_extract_all_def extractall_primary_def extracted_def nothing_fails_def
        numeral_3_eq_3)

theorem move_failure_not_fatal_witness:
  "script (nothing_fails\<lparr>rename_dir := Some ''busy''\<rparr>)
     (fresh_world\<lparr>kaggle_file := Some (Parsed sample_table)\<rparr>) =
     (Done \<lparr>columns = [''winner_name'', ''loser_name'', ''surface'', ''tourney_level''],
            object_columns = [''winner_name'', ''loser_name'', ''surface'', ''tourney_level''],
            rows = [\<lparr>winner_name = Some ''A'', loser_name = Some ''B'',
                     surface = Some (Str ''Clay''), tourney_level = Some (Str ''G'')\<rparr>]\<rparr>,
      fresh_world\<lparr>kaggle_file := Some (Parsed sample_table),
                  zip_cache := Some (Zip (Some [(''atp_matches_2000.csv'', Parsed sample_table)]))\<rparr>,
      [HttpGet, ExtractAll, Error (MoveFailed ''busy''), Success (Loaded 2)]) \<and>
   script (nothing_fails\<lparr>extract_primary := (\<lambda>k. if k = 0 then Some (''busy'', Some None) else None),
                         rm_atp_data := Some (''read-only'', Some [])\<rparr>)
     (fresh_world\<lparr>atp_data := Some [], kaggle_file := Some (Parsed sample_table)\<rparr>) =
     (Done \<lparr>columns = [''winner_name'', ''loser_name'', ''surface'', ''tourney_level''],
            object_columns = [''winner_name'', ''loser_name'', ''surface'', ''tourney_level''],
            rows = [\<lparr>winner_name = Some ''A'', loser_name = Some ''B'',
                     surface = Some (Str ''Clay''), tourney_level = Some (Str ''G'')\<rparr>]\<rparr>,
      fresh_world\<lparr>atp_data := Some [], kaggle_file := Some (Parsed sample_table),
                  zip_cache := Some (Zip (Some [(''atp_matches_2000.csv'', Parsed sample_table)]))\<rparr>,
      [HttpGet, ExtractAll, Warning (AttemptFailed 1 ''busy''), Sleep (3 / 2), ExtractAll,
       Error (MoveFailed ''read-only''), Success (Loaded 2)])"
  using move_failure_not_fatal
          [of "fresh_world\<lparr>kaggle_file := Some (Parsed sample_table)\<rparr>"
              "nothing_fails\<lparr>rename_dir := Some ''busy''\<rparr>"
              "fresh_world\<lparr>kaggle_file := Some (Parsed sample_table),
                 zip_cache := Some (Zip (Some [(''atp_matches_2000.csv'', Parsed sample_table)]))\<rparr>"
              "[HttpGet]"
              "Some [(''atp_matches_2000.csv'', Parsed sample_table)]"
              "[(''atp_matches_2000.csv'', Parsed sample_table)]"
              "[ExtractAll]" "''busy''" None]
        move_failure_not_fatal
          [of "fresh_world\<lparr>atp_data := Some [], kaggle_file := Some (Parsed sample_table)\<rparr>"
              "nothing_fails\<lparr>extract_primary := (\<lambda>k. if k = 0 then Some (''busy'', Some None) else None),
                             rm_atp_data := Some (''read-only'', Some [])\<rparr>"
              "fresh_world\<lparr>atp_data := Some [], kaggle_file := Some (Parsed sample_table),
                 zip_cache := Some (Zip (Some [(''atp_matches_2000.csv'', Parsed sample_table)]))\<rparr>"
              "[HttpGet]"
              "Some [(''atp_matches_2000.csv'', Parsed sample_table)]"
              "[(''atp_matches_2000.csv'', Parsed sample_table)]"
              "[ExtractAll, Warning (AttemptFailed 1 ''busy''), Sleep (3 / 2), ExtractAll]"
              "''read-only''" "Some []"]
        rename_fails_extraction removal_fails_extraction
  by (simp add: Let_def needs_download_def fetch_zip_def clean_temp_def remove_temp_def
        ensure_secondary_def load_defs input_defs)

text \<open>What does stop the primary acquisition: a failed fetch, and a missing folder.\<close>

lemma fetch_failure_stops:
  "needs_download w \<Longrightarrow> fetch_zip env w = (Some e, w1, ev1) \<Longrightarrow>
     ensure_primary env w = (Stopped, w1, ev1 @ [Error (DownloadFailed e)])"
  by (simp add: ensure_primary_def)

lemma missing_folder_stops:
  "try_extract_all (extractall_primary env a) 3 (temp_dir (fst (clean_temp env w))) =
     (True, target, ev2) \<Longrightarrow>
   target = None \<or> target = Some None \<Longrightarrow>
     stage env a w =
       (Stopped, (fst (clean_temp env w))\<lparr>temp_dir := target\<rparr>,
        snd (clean_temp env w) @ ev2 @ [Error FolderNotFound])"
  by (auto simp: stage_def Let_def split: prod.splits)

text \<open>The lookup of the secrets, when it raises, ends the run before anything is fetched.\<close>

lemma secrets_failure_crashes:
  "secrets_lookup env = Some e \<Longrightarrow> script env w = (Crashed e, w, [])"
  by (simp add: script_def)

section \<open>Properties of the load\<close>

text \<open>
  The loop of lines 119--124 keeps the tables of the files that parse, in order, and
  warns once for every file that does not; it cannot end the run.
\<close>

lemma load_files_tables:
  "fst (load_files fs) =
     List.map_filter (\<lambda>(f, c). case c of Parsed t \<Rightarrow> Some t | Unparsable e \<Rightarrow> None) fs"
  by (induction fs) (auto simp: List.map_filter_simps split: prod.splits csv.splits)

lemma load_files_warnings:
  "snd (load_files fs) =
     List.map_filter (\<lambda>(f, c). case c of Parsed t \<Rightarrow> None
                                | Unparsable e \<Rightarrow> Some (Warning (Skipping f e))) fs"
  by (induction fs) (auto simp: List.map_filter_simps split: prod.splits csv.splits)

text \<open>
  When the secondary file is absent or parses, the load stops the run exactly when no
  primary file has parsed and the secondary table has no row.
\<close>

lemma load_halts_iff:
  assumes "read_kaggle (kaggle_file w) = Inr kaggle_df"
  shows "fst (load_and_merge w) = Halted \<longleftrightarrow>
           fst (load_files (sorted_glob (atp_data w))) = [] \<and> rows kaggle_df = []"
  using assms
  by (auto simp: load_and_merge_def Let_def split: sum.splits prod.splits if_splits)

lemma load_crashes_on_unparsable_secondary:
  "kaggle_file w = Some (Unparsable e) \<Longrightarrow> load_and_merge w = (Crashed e, [])"
  by (simp add: load_and_merge_def read_kaggle_def)

text \<open>
  C4, at the input where the program departs from it. Three per-year files parse and one
  does not: the load warns about that one and goes on. But with a secondary file that
  does not parse beside a per-year file that does, the read of line 117, which is
  outside every \<open>try\<close>, raises and the run ends there, although a table could be
  loaded.
\<close>

theorem unparsable_secondary_ends_the_run:
  "load_and_merge
     (fresh_world\<lparr>atp_data := Some [(''atp_matches_2000.csv'', Parsed sample_table)],
                 kaggle_file := Some (Unparsable ''EmptyDataError'')\<rparr>)
     = (Crashed ''EmptyDataError'', []) \<and>
   fst (load_files (sorted_glob (Some [(''atp_matches_2000.csv'', Parsed sample_table)])))
     = [sample_table] \<and>
   snd (load_and_merge
     (fresh_world\<lparr>atp_data := Some [(''atp_matches_2001.csv'', Parsed sample_table),
                                    (''atp_matches_2000.csv'', Unparsable ''bad line''),
                                    (''atp_matches_1999.csv'', Parsed sample_table),
                                    (''atp_matches_1998.csv'', Parsed sample_table)]\<rparr>))
     = [Warning (Skipping ''atp_data/atp_matches_2000.csv'' ''bad line''), Success (Loaded 6)]"
  by (simp add: load_defs input_defs)

lemma keep_years_year_ok:
  "keep_years fs = Inr kept \<Longrightarrow> (f, c) \<in> set kept \<Longrightarrow> year_ok f = Inr True"
  by (induction fs arbitrary: kept) (auto split: sum.splits if_splits)

lemma keep_years_subset: "keep_years fs = Inr kept \<Longrightarrow> x \<in> set kept \<Longrightarrow> x \<in> set fs"
  by (induction fs arbitrary: kept) (auto split: sum.splits if_splits)

text \<open>
  What tennis\_match\_predictor-app.py keeps are files of the pattern whose year is in
  1981--2024; a file whose year is written with a superscript digit ends its run.
\<close>

lemma app_all_files_year_ok:
  "app_all_files primary = Inr kept \<Longrightarrow> (f, c) \<in> set kept \<Longrightarrow>
     year_ok f = Inr True \<and> (f, c) \<in> set (sorted_glob primary)"
proof -
  assume k: "app_all_files primary = Inr kept" and m: "(f, c) \<in> set kept"
  from k have "keep_years (sorted_glob primary) = Inr kept"
    by (simp add: app_all_files_def)
  with m show ?thesis
    using keep_years_year_ok [of "sorted_glob primary" kept f c]
          keep_years_subset [of "sorted_glob primary" kept "(f, c)"]
    by blast
qed

lemma superscript_year:
  "year_ok (''atp_data/atp_matches_'' @ [CHR 0xB2, CHR 0xB2, CHR 0xB2, CHR 0xB2] @ ''.csv'') =
     Inl ''ValueError: invalid literal for int() with base 10''"
  by (simp add: year_ok_def year_slice_def py_isdigit_def py_int_def is_digit_def is_decimal_def)

text \<open>
  C2, at the input where the program departs from it. The file \<open>atp_matches_1968.csv\<close>
  matches the pattern of line 116 and its year is not in 1981--2024. The selection of
  tennis\_match\_predictor-app.py leaves it out; tennis\_match\_predictor-v12.py, which
  has the pattern and not the test on the year, loads it, and its row is in the
  dataset.
\<close>

theorem v12_loads_year_out_of_range:
  "glob_match ''atp_matches_1968.csv'' \<and>
   year_ok ''atp_data/atp_matches_1968.csv'' = Inr False \<and>
   app_all_files (Some [(''atp_matches_1968.csv'', Parsed sample_table)]) = Inr [] \<and>
   fst (load_and_merge
          (fresh_world\<lparr>atp_data := Some [(''atp_matches_1968.csv'', Parsed sample_table)]\<rparr>))
     = Done \<lparr>columns = [''winner_name'', ''loser_name'', ''surface'', ''tourney_level''],
      object_columns = [''winner_name'', ''loser_name'', ''surface'', ''tourney_level''],
             rows = [\<lparr>winner_name = Some ''A'', loser_name = Some ''B'',
                      surface = Some (Str ''Clay''), tourney_level = Some (Str ''G'')\<rparr>]\<rparr>"
  by (simp add: load_defs input_defs app_all_files_def year_ok_def year_slice_def
        py_isdigit_def py_int_def is_digit_def is_decimal_def)

lemma drop_null_rows_null_free:
  "drop_null_rows df = Inr df2 \<Longrightarrow> r \<in> set (rows df2) \<Longrightarrow>
     winner_name r \<noteq> None \<and> loser_name r \<noteq> None \<and> surface r \<noteq> None \<and> tourney_level r \<noteq> None"
  by (auto simp: drop_null_rows_def Let_def split: if_splits)

lemma load_and_merge_Done:
  "fst (load_and_merge w) = Done df \<Longrightarrow> \<exists>df0. drop_null_rows df0 = Inr df"
  by (auto simp: load_and_merge_def Let_def split: sum.splits prod.splits if_splits)

lemma script_Done:
  "fst (script env w) = Done df \<Longrightarrow> fst (load_and_merge (fst (snd (script env w)))) = Done df"
  by (auto simp: script_def Let_def split: prod.splits flow.splits option.splits)

text \<open>
  C5. Whatever is on the disk, a dataset that the load produces has no row with a null
  winner, loser, surface or tournament level. The dataset with which a run of the
  script ends is such a dataset, and it is the one the prediction routine is given when
  the button is pressed.
\<close>

theorem dataset_null_free:
  "(fst (load_and_merge w) = Done df \<longrightarrow>
      (\<forall>r \<in> set (rows df). winner_name r \<noteq> None \<and> loser_name r \<noteq> None \<and>
                             surface r \<noteq> None \<and> tourney_level r \<noteq> None)) \<and>
   (fst (script env w) = Done df \<longrightarrow>
      on_button clf env w a b s l = Done (predict clf df a b s l) \<and>
      (\<forall>r \<in> set (rows df). winner_name r \<noteq> None \<and> loser_name r \<noteq> None \<and>
                             surface r \<noteq> None \<and> tourney_level r \<noteq> None))"
proof -
  have nf: "\<forall>r \<in> set (rows df). winner_name r \<noteq> None \<and> loser_name r \<noteq> None \<and>
                             surface r \<noteq> None \<and> tourney_level r \<noteq> None"
    if "fst (load_and_merge w') = Done df" for w'
    using load_and_merge_Done [OF that] drop_null_rows_null_free by blast
  show ?thesis
    using nf [of w] nf [of "fst (snd (script env w))"] script_Done [of env w df]
    by (simp add: on_button_def)
qed

lemma sample_load:
  "load_and_merge (fresh_world\<lparr>atp_data := Some [(''atp_matches_2000.csv'', Parsed sample_table)]\<rparr>)
     = (Done \<lparr>columns = [''winner_name'', ''loser_name'', ''surface'', ''tourney_level''],
      object_columns = [''winner_name'', ''loser_name'', ''surface'', ''tourney_level''],
              rows = [\<lparr>winner_name = Some ''A'', loser_name = Some ''B'',
                       surface = Some (Str ''Clay''), tourney_level = Some (Str ''G'')\<rparr>]\<rparr>,
        [Success (Loaded 2)])"
  by (simp add: load_defs input_defs)

lemma sample_script:
  "fst (script nothing_fails fresh_world)
     = Done \<lparr>columns = [''winner_name'', ''loser_name'', ''surface'', ''tourney_level''],
      object_columns = [''winner_name'', ''loser_name'', ''surface'', ''tourney_level''],
             rows = [\<lparr>winner_name = Some ''A'', loser_name = Some ''B'',
                      surface = Some (Str ''Clay''), tourney_level = Some (Str ''G'')\<rparr>]\<rparr>"
  unfolding script_def first_run
  by (simp add: ensure_secondary_def kaggle_download_def load_defs input_defs)

theorem dataset_null_free_witness:
  "fst (load_and_merge
          (fresh_world\<lparr>atp_data := Some [(''atp_matches_2000.csv'', Parsed sample_table)]\<rparr>))
     = Done \<lparr>columns = [''winner_name'', ''loser_name'', ''surface'', ''tourney_level''],
      object_columns = [''winner_name'', ''loser_name'', ''surface'', ''tourney_level''],
             rows = [\<lparr>winner_name = Some ''A'', loser_name = Some ''B'',
                      surface = Some (Str ''Clay''), tourney_level = Some (Str ''G'')\<rparr>]\<rparr> \<and>
   on_button (constant_classifier True [0, 1 :: rat]) nothing_fails fresh_world
       ''A'' ''B'' (Str ''Clay'') (Str ''G'')
     = Done (predict (constant_classifier True [0, 1 :: rat])
               \<lparr>columns = [''winner_name'', ''loser_name'', ''surface'', ''tourney_level''],
      object_columns = [''winner_name'', ''loser_name'', ''surface'', ''tourney_level''],
                rows = [\<lparr>winner_name = Some ''A'', loser_name = Some ''B'',
                         surface = Some (Str ''Clay''), tourney_level = Some (Str ''G'')\<rparr>]\<rparr>
               ''A'' ''B'' (Str ''Clay'') (Str ''G'')) \<and>
   surface (rows sample_table ! 1) = None"
  using dataset_null_free
          [of "fresh_world\<lparr>atp_data := Some [(''atp_matches_2000.csv'', Parsed sample_table)]\<rparr>"
              "\<lparr>columns = [''winner_name'', ''loser_name'', ''surface'', ''tourney_level''],
      object_columns = [''winner_name'', ''loser_name'', ''surface'', ''tourney_level''],
                rows = [\<lparr>winner_name = Some ''A'', loser_name = Some ''B'',
                         surface = Some (Str ''Clay''), tourney_level = Some (Str ''G'')\<rparr>]\<rparr>"
              nothing_fails "constant_classifier True [0, 1 :: rat]"
              "''A''" "''B''" "Str ''Clay''" "Str ''G''"]
        dataset_null_free
          [of fresh_world
              "\<lparr>columns = [''winner_name'', ''loser_name'', ''surface'', ''tourney_level''],
      object_columns = [''winner_name'', ''loser_name'', ''surface'', ''tourney_level''],
                rows = [\<lparr>winner_name = Some ''A'', loser_name = Some ''B'',
                         surface = Some (Str ''Clay''), tourney_level = Some (Str ''G'')\<rparr>]\<rparr>"
              nothing_fails "constant_classifier True [0, 1 :: rat]"
              "''A''" "''B''" "Str ''Clay''" "Str ''G''"]
        sample_load sample_script
  by (simp add: sample_table_def)

text \<open>
  C10. A secondary file that parses to a table without rows changes nothing: the load
  does exactly what it does when the file is absent, in its result and in its messages.
  The table is not among the merged ones, and if no primary file parses the run stops
  for want of data.
\<close>

theorem empty_secondary_as_absent:
  "rows t = [] \<Longrightarrow>
   load_and_merge (w\<lparr>kaggle_file := Some (Parsed t)\<rparr>) = load_and_merge (w\<lparr>kaggle_file := None\<rparr>)"
  by (simp add: load_and_merge_def read_kaggle_def)

theorem empty_secondary_as_absent_witness:
  "load_and_merge
     (fresh_world\<lparr>kaggle_file :=
        Some (Parsed \<lparr>columns = [''winner_name'', ''loser_name''],
                      object_columns = [''winner_name'', ''loser_name''], rows = []\<rparr>)\<rparr>)
     = (Halted, [Error NoValidData]) \<and>
   load_and_merge (fresh_world\<lparr>kaggle_file := None\<rparr>) = (Halted, [Error NoValidData])"
  using empty_secondary_as_absent
          [of "\<lparr>columns = [''winner_name'', ''loser_name''],
                object_columns = [''winner_name'', ''loser_name''], rows = []\<rparr>" fresh_world]
  by (simp add: load_defs fresh_world_def)


end
